theory Spec2Isabelle
  imports Main "HOL-Library.Word" "HOL-Library.AList"
begin

section \<open>The SOVREN B200 inference engine: data model\<close>

text \<open>
  The embedding follows \<^verbatim>\<open>inference_engine.h\<close> and \<^verbatim>\<open>inference_engine.cpp\<close>.
  The methods are written against the standard library (\<^verbatim>\<open>find\<close>, \<^verbatim>\<open>erase\<close>, a
  two-argument \<^verbatim>\<open>resize\<close>, iteration over the map), so \<^verbatim>\<open>std::vector\<close> and
  \<^verbatim>\<open>std::unordered_map\<close> are given their standard meaning here.

  \<^item> \<^verbatim>\<open>size_t\<close> is \<^verbatim>\<open>unsigned long\<close>: a 64-bit word, whose \<open>+\<close> and \<open>-\<close> wrap.
  \<^item> \<^verbatim>\<open>int\<close> is a mathematical integer; the one place where the source computes with
    it (\<^verbatim>\<open>vocab_size * batch_size\<close>) checks the 32-bit range explicitly.
  \<^item> \<^verbatim>\<open>float\<close> is its 32-bit pattern. The source never computes with a float: it
    stores the constant \<^verbatim>\<open>0.0f\<close> and passes parameters along.
  \<^item> \<^verbatim>\<open>void*\<close> is an address; \<^verbatim>\<open>nullptr\<close> is address 0.
  \<^item> A data member \<^verbatim>\<open>name_\<close> of the class is the record field \<open>name\<close> (an Isabelle
    name cannot end in an underscore).
  \<^item> \<^verbatim>\<open>std::unordered_map<void*, size_t>\<close> is an association list; its order stands
    for the (unspecified) iteration order of the hash table.
\<close>

type_synonym size_t = "64 word"
type_synonym float32 = "32 word"
type_synonym ptr = nat

definition nullptr :: ptr where
  "nullptr = 0"

record ModelConfig =
  vocab_size :: int
  hidden_size :: int
  intermediate_size :: int
  num_hidden_layers :: int
  num_attention_heads :: int
  num_key_value_heads :: int
  max_position_embeddings :: int
  rms_norm_eps :: float32
  rope_theta :: float32
  rope_scaling :: int

text \<open>The default member initialisers of \<^verbatim>\<open>struct ModelConfig\<close>
  (\<^verbatim>\<open>1e-6f\<close> is \<^verbatim>\<open>0x358637BD\<close>, \<^verbatim>\<open>1000000.0f\<close> is \<^verbatim>\<open>0x49742400\<close>).\<close>

definition default_ModelConfig :: ModelConfig where
  "default_ModelConfig =
     \<lparr> vocab_size = 152064, hidden_size = 8192, intermediate_size = 29568,
       num_hidden_layers = 80, num_attention_heads = 64, num_key_value_heads = 8,
       max_position_embeddings = 32768, rms_norm_eps = 0x358637BD,
       rope_theta = 0x49742400, rope_scaling = 1 \<rparr>"

text \<open>
  The engine object together with the part of the C heap it talks to. The first seven
  fields are the data members of \<^verbatim>\<open>class SOVRENInferenceEngine\<close> that the modelled
  methods read or write (\<^verbatim>\<open>gpu_contexts_\<close> keeps the \<^verbatim>\<open>device_id\<close> of each context, the
  only field of \<^verbatim>\<open>GPUContext\<close> ever assigned; \<^verbatim>\<open>weights_\<close>, \<^verbatim>\<open>states_\<close> and
  \<^verbatim>\<open>performance_metrics_\<close> are never touched by any method). The last three fields
  are the environment: the blocks handed out by \<^verbatim>\<open>malloc\<close> and not yet given back,
  every call of \<^verbatim>\<open>free\<close> in order, and whether \<^verbatim>\<open>free\<close> was ever called on a block
  that was not live (undefined behaviour in C).
\<close>

record engine =
  config :: ModelConfig
  gpu_contexts :: "int list"
  num_gpus :: int
  tensor_parallel_size :: int
  pipeline_parallel_size :: int
  total_memory_allocated :: size_t
  memory_map :: "(ptr \<times> size_t) list"
  heap_live :: "ptr set"
  free_trace :: "ptr list"
  heap_fault :: bool

section \<open>The C allocator as environment\<close>

text \<open>
  \<^verbatim>\<open>malloc(size)\<close> (the size is \<open>sz\<close> below): the answer \<open>r\<close> is chosen by the C library, so it is an input of
  the model. A null answer is a failed allocation; any other answer becomes a live block.
\<close>

definition c_malloc :: "size_t \<Rightarrow> ptr \<Rightarrow> engine \<Rightarrow> ptr \<times> engine" where
  "c_malloc sz r s =
     (if r = nullptr then (nullptr, s)
      else (r, s\<lparr>heap_live := insert r (heap_live s)\<rparr>))"

text \<open>What the C standard promises about the answer: null, or a block that is not
  live at the moment of the call.\<close>

definition malloc_answer_ok :: "ptr \<Rightarrow> engine \<Rightarrow> bool" where
  "malloc_answer_ok r s = (r = nullptr \<or> r \<notin> heap_live s)"

text \<open>\<^verbatim>\<open>free(p)\<close>: logged; a non-null \<open>p\<close> that is not live is a double free.\<close>

definition c_free :: "ptr \<Rightarrow> engine \<Rightarrow> engine" where
  "c_free p s =
     s\<lparr>heap_live := heap_live s - {p},
       free_trace := free_trace s @ [p],
       heap_fault := (heap_fault s \<or> (p \<noteq> nullptr \<and> p \<notin> heap_live s))\<rparr>"

section \<open>The methods\<close>

text \<open>
  The macro \<^verbatim>\<open>CUDA_AVAILABLE\<close> is fixed at compile time; each method takes it as its
  first argument \<open>cuda\<close>. The header sets it to 0 unless the CUDA compiler or the
  build defines it, so \<open>cuda = False\<close> (the CPU path) is the default build.
  Writes to \<^verbatim>\<open>std::cout\<close> are not modelled.
\<close>

definition SOVRENInferenceEngine :: "bool \<Rightarrow> int \<Rightarrow> engine" where
  "SOVRENInferenceEngine cuda n =
     \<lparr> config = default_ModelConfig,
       gpu_contexts = [],
       num_gpus = (if cuda then n else 0),
       tensor_parallel_size = 1,
       pipeline_parallel_size = 1,
       total_memory_allocated = 0,
       memory_map = [],
       heap_live = {},
       free_trace = [],
       heap_fault = False \<rparr>"

text \<open>\<^verbatim>\<open>initialize\<close>: on the CUDA path a negative \<^verbatim>\<open>num_gpus_\<close> converts to a huge
  \<^verbatim>\<open>size_t\<close>, \<^verbatim>\<open>resize\<close> throws, and the handler returns \<^verbatim>\<open>false\<close>.\<close>

definition initialize :: "bool \<Rightarrow> engine \<Rightarrow> bool \<times> engine" where
  "initialize cuda s =
     (if cuda then
        (if num_gpus s < 0 then (False, s)
         else (True, s\<lparr>gpu_contexts := map int [0 ..< nat (num_gpus s)]\<rparr>))
      else (True, s))"

definition allocate_gpu_memory ::
    "bool \<Rightarrow> size_t \<Rightarrow> int \<Rightarrow> ptr \<Rightarrow> engine \<Rightarrow> ptr \<times> engine" where
  "allocate_gpu_memory cuda sz device_id r s =
     (if cuda then
        (nullptr, s\<lparr>total_memory_allocated := total_memory_allocated s + sz\<rparr>)
      else
        (let (p, s1) = c_malloc sz r s in
         if p \<noteq> nullptr then
           (p, s1\<lparr>total_memory_allocated := total_memory_allocated s1 + sz,
                  memory_map := AList.update p sz (memory_map s1)\<rparr>)
         else (p, s1)))"

definition free_gpu_memory :: "bool \<Rightarrow> ptr \<Rightarrow> engine \<Rightarrow> engine" where
  "free_gpu_memory cuda p s =
     (if p = nullptr then s
      else if cuda then s
      else (case map_of (memory_map s) p of
              None \<Rightarrow> s
            | Some sz \<Rightarrow>
                c_free p (s\<lparr>total_memory_allocated := total_memory_allocated s - sz,
                           memory_map := AList.delete p (memory_map s)\<rparr>)))"

text \<open>The loop of \<^verbatim>\<open>cleanup\<close> calls \<^verbatim>\<open>free\<close> on the key of every entry.\<close>

fun free_all :: "ptr list \<Rightarrow> engine \<Rightarrow> engine" where
  "free_all [] s = s"
| "free_all (p # ps) s = free_all ps (c_free p s)"

definition cleanup :: "bool \<Rightarrow> engine \<Rightarrow> engine" where
  "cleanup cuda s =
     (free_all (map fst (memory_map s)) s)
       \<lparr>memory_map := [], total_memory_allocated := 0\<rparr>"

definition get_memory_usage :: "engine \<Rightarrow> size_t" where
  "get_memory_usage s = total_memory_allocated s"

definition get_config :: "engine \<Rightarrow> ModelConfig" where
  "get_config s = config s"


subsection \<open>Model operations\<close>

text \<open>
  \<^verbatim>\<open>v.resize(n, x)\<close> of \<^verbatim>\<open>std::vector\<close>: the first \<open>n\<close> elements are kept, and the
  vector is filled up to length \<open>n\<close> with copies of \<open>x\<close>.
\<close>

definition resize :: "nat \<Rightarrow> 'a \<Rightarrow> 'a list \<Rightarrow> 'a list" where
  "resize n x v = take n v @ replicate (n - length v) x"

text \<open>
  The ways a call of \<^verbatim>\<open>forward_pass\<close> can fail to return: the product
  \<^verbatim>\<open>config_.vocab_size * batch_size\<close> is computed in \<^verbatim>\<open>int\<close>, where overflow is undefined
  behaviour; a negative product converts to a \<^verbatim>\<open>size_t\<close> above \<^verbatim>\<open>max_size()\<close>, for which
  \<^verbatim>\<open>resize\<close> throws \<^verbatim>\<open>std::length_error\<close>, and the method has no handler.
  (Exhaustion of host memory inside \<^verbatim>\<open>resize\<close> is not modelled.)
\<close>

datatype fault = SignedOverflow | LengthError

definition forward_pass ::
    "int list \<Rightarrow> float32 list \<Rightarrow> int \<Rightarrow> engine \<Rightarrow> fault + (bool \<times> float32 list \<times> engine)" where
  "forward_pass input_tokens output_logits batch_size s =
     (let n = vocab_size (config s) * batch_size in
      if n < - (2 ^ 31) \<or> 2 ^ 31 \<le> n then Inl SignedOverflow
      else if n < 0 then Inl LengthError
      else Inr (True, resize (nat n) 0 output_logits, s))"

text \<open>\<^verbatim>\<open>generate_tokens\<close> assigns the prompt to \<^verbatim>\<open>output_tokens\<close> and returns \<^verbatim>\<open>true\<close>;
  the body is marked \<^verbatim>\<open>TODO: Implement token generation\<close> and the assignment
  \<^verbatim>\<open>Placeholder\<close>.\<close>

definition generate_tokens ::
    "int list \<Rightarrow> int list \<Rightarrow> int \<Rightarrow> float32 \<Rightarrow> float32 \<Rightarrow> engine
       \<Rightarrow> bool \<times> int list \<times> engine" where
  "generate_tokens input_tokens output_tokens max_new_tokens temperature top_p s =
     (True, input_tokens, s)"

text \<open>The tokens of an output stream that come after the prompt.\<close>

definition new_tokens :: "int list \<Rightarrow> int list \<Rightarrow> int list" where
  "new_tokens input_tokens output_tokens = drop (length input_tokens) output_tokens"

subsection \<open>Multi-GPU coordination\<close>

text \<open>Each of the three methods returns \<^verbatim>\<open>true\<close> on every path of either build.\<close>

definition synchronize_gpus :: "bool \<Rightarrow> engine \<Rightarrow> bool \<times> engine" where
  "synchronize_gpus cuda s =
     (if cuda then (if num_gpus s \<le> 1 then (True, s) else (True, s)) else (True, s))"

definition all_reduce_gradients :: "bool \<Rightarrow> engine \<Rightarrow> bool \<times> engine" where
  "all_reduce_gradients cuda s = (if cuda then (True, s) else (True, s))"

definition broadcast_weights :: "bool \<Rightarrow> engine \<Rightarrow> bool \<times> engine" where
  "broadcast_weights cuda s = (if cuda then (True, s) else (True, s))"

section \<open>Sequences of allocator calls\<close>

text \<open>
  A client drives the allocator through calls of the three methods. An \<open>Allocate\<close>
  carries the size, the device id and the answer \<^verbatim>\<open>malloc\<close> gives to that call.
\<close>

datatype call = Allocate size_t int ptr | Free ptr | Cleanup

fun step :: "bool \<Rightarrow> call \<Rightarrow> engine \<Rightarrow> engine" where
  "step cuda (Allocate sz device_id r) s = snd (allocate_gpu_memory cuda sz device_id r s)"
| "step cuda (Free p) s = free_gpu_memory cuda p s"
| "step cuda Cleanup s = cleanup cuda s"

fun run :: "bool \<Rightarrow> call list \<Rightarrow> engine \<Rightarrow> engine" where
  "run cuda [] s = s"
| "run cuda (c # cs) s = run cuda cs (step cuda c s)"

text \<open>The environment behaves: every answer of \<^verbatim>\<open>malloc\<close> along the run is null or
  a block that is not live then. (The CUDA path never calls \<^verbatim>\<open>malloc\<close>.)\<close>

fun call_ok :: "bool \<Rightarrow> call \<Rightarrow> engine \<Rightarrow> bool" where
  "call_ok cuda (Allocate sz device_id r) s = (cuda \<or> malloc_answer_ok r s)"
| "call_ok cuda (Free p) s = True"
| "call_ok cuda Cleanup s = True"

fun env_ok :: "bool \<Rightarrow> call list \<Rightarrow> engine \<Rightarrow> bool" where
  "env_ok cuda [] s = True"
| "env_ok cuda (c # cs) s = (call_ok cuda c s \<and> env_ok cuda cs (step cuda c s))"

text \<open>The pointers with an entry in \<^verbatim>\<open>memory_map_\<close>: the outstanding allocations.\<close>

definition outstanding :: "engine \<Rightarrow> ptr list" where
  "outstanding s = map fst (memory_map s)"

text \<open>The bookkeeping agrees with the heap: one entry per live block, none for null,
  and no double free so far.\<close>

definition heap_inv :: "engine \<Rightarrow> bool" where
  "heap_inv s =
     (distinct (outstanding s) \<and> set (outstanding s) = heap_live s
      \<and> nullptr \<notin> heap_live s \<and> \<not> heap_fault s)"

text \<open>The counter is the sum of the recorded sizes (in \<^verbatim>\<open>size_t\<close> arithmetic).\<close>

definition accounting_inv :: "engine \<Rightarrow> bool" where
  "accounting_inv s = (total_memory_allocated s = sum_list (map snd (memory_map s)))"


text \<open>The engine a client holds after constructing it with \<open>n\<close> GPUs and making
  the calls \<open>cs\<close>, and whether \<^verbatim>\<open>malloc\<close> behaved along the way.\<close>

definition after_calls :: "bool \<Rightarrow> int \<Rightarrow> call list \<Rightarrow> engine" where
  "after_calls cuda n cs = run cuda cs (SOVRENInferenceEngine cuda n)"

definition well_behaved :: "bool \<Rightarrow> int \<Rightarrow> call list \<Rightarrow> bool" where
  "well_behaved cuda n cs = env_ok cuda cs (SOVRENInferenceEngine cuda n)"

section \<open>Vocabulary of the specification\<close>

text \<open>
  Modelled from the spec: the error kinds of section 7 that the allocator and the
  collectives are said to report. The source declares no error type, and none of the
  methods above contains a \<^verbatim>\<open>throw\<close>.
\<close>

datatype error = OutOfMemory | InvalidHandle | CollectiveTimeout

text \<open>
  What the caller of \<^verbatim>\<open>free_gpu_memory\<close> observes. The method returns \<^verbatim>\<open>void\<close>; its
  two early exits (the null test and the failed lookup) and its last line all return
  normally, and \<^verbatim>\<open>find\<close>, \<^verbatim>\<open>erase\<close> and \<^verbatim>\<open>free\<close> do not throw. So the outcome
  of every call is a normal return with the new state.
\<close>

definition free_gpu_memory_outcome :: "bool \<Rightarrow> ptr \<Rightarrow> engine \<Rightarrow> error + engine" where
  "free_gpu_memory_outcome cuda p s = Inr (free_gpu_memory cuda p s)"

text \<open>
  Modelled from the spec: a device memory ceiling of \<open>limit\<close> bytes, and the test
  "the requested size would make the cumulative allocated bytes exceed it". The source
  has no such constant or field; the ceiling appears here as a parameter.
\<close>

definition exceeds_ceiling :: "nat \<Rightarrow> engine \<Rightarrow> size_t \<Rightarrow> bool" where
  "exceeds_ceiling limit s sz = (limit < unat (total_memory_allocated s) + unat sz)"

text \<open>
  The invariant the spec puts on \<^verbatim>\<open>ModelConfig\<close> (section 3), in the spec's words:
  \<open>head_dim = hidden_size / num_attention_heads\<close> is an integer, and
  \<open>num_attention_heads\<close> is a multiple of \<open>num_key_value_heads\<close> and of the
  tensor-parallel size.
\<close>

definition head_dim :: "ModelConfig \<Rightarrow> int" where
  "head_dim cfg = hidden_size cfg div num_attention_heads cfg"

definition config_invariant :: "ModelConfig \<Rightarrow> int \<Rightarrow> bool" where
  "config_invariant cfg tp =
     (num_attention_heads cfg \<noteq> 0 \<and> num_key_value_heads cfg \<noteq> 0 \<and> tp \<noteq> 0
      \<and> head_dim cfg * num_attention_heads cfg = hidden_size cfg
      \<and> num_attention_heads cfg mod num_key_value_heads cfg = 0
      \<and> num_attention_heads cfg mod tp = 0)"

text \<open>The logits a caller of \<^verbatim>\<open>forward_pass\<close> finds in \<^verbatim>\<open>output_logits\<close> when the
  call returns; none when it does not return.\<close>

definition logits_of :: "fault + (bool \<times> float32 list \<times> engine) \<Rightarrow> float32 list option" where
  "logits_of res = (case res of Inl f \<Rightarrow> None | Inr (ok, logits, s) \<Rightarrow> Some logits)"

section \<open>Evaluation and helper lemmas\<close>

lemmas eval_defs =
  after_calls_def well_behaved_def SOVRENInferenceEngine_def allocate_gpu_memory_def
  free_gpu_memory_def cleanup_def c_malloc_def c_free_def malloc_answer_ok_def nullptr_def
  outstanding_def get_memory_usage_def

lemma free_all_fields:
  "memory_map (free_all ps s) = memory_map s"
  "total_memory_allocated (free_all ps s) = total_memory_allocated s"
  "config (free_all ps s) = config s"
  "tensor_parallel_size (free_all ps s) = tensor_parallel_size s"
  "free_trace (free_all ps s) = free_trace s @ ps"
  "heap_live (free_all ps s) = heap_live s - set ps"
  by (induction ps arbitrary: s) (auto simp: c_free_def)

lemma free_all_fault:
  "distinct ps \<Longrightarrow> set ps \<subseteq> heap_live s \<Longrightarrow> nullptr \<notin> set ps
     \<Longrightarrow> heap_fault (free_all ps s) = heap_fault s"
proof (induction ps arbitrary: s)
  case Nil
  then show ?case by simp
next
  case (Cons p ps)
  from Cons.prems have sub: "set ps \<subseteq> heap_live (c_free p s)"
    by (auto simp: c_free_def)
  from Cons.prems have "heap_fault (c_free p s) = heap_fault s"
    by (simp add: c_free_def)
  moreover from Cons.prems sub have "heap_fault (free_all ps (c_free p s)) = heap_fault (c_free p s)"
    by (intro Cons.IH) simp_all
  ultimately show ?case by simp
qed

lemma sum_list_update_fresh:
  "k \<notin> fst ` set al \<Longrightarrow> sum_list (map snd (AList.update k v al)) = sum_list (map snd al) + (v::size_t)"
  by (induction al) auto

lemma sum_list_delete:
  "distinct (map fst al) \<Longrightarrow> map_of al k = Some v
     \<Longrightarrow> sum_list (map snd (AList.delete k al)) = sum_list (map snd al) - (v::size_t)"
proof (induction al)
  case Nil
  then show ?case by simp
next
  case (Cons a al)
  show ?case
  proof (cases "fst a = k")
    case True
    with Cons.prems have "snd a = v" by simp
    moreover from True Cons.prems have "k \<notin> fst ` set al" by auto
    then have "AList.delete k al = al"
      by (induction al) auto
    ultimately show ?thesis using True by simp
  next
    case False
    with Cons show ?thesis by simp
  qed
qed

lemma heap_inv_init: "heap_inv (SOVRENInferenceEngine cuda n)"
  by (simp add: heap_inv_def outstanding_def SOVRENInferenceEngine_def)

lemma accounting_inv_init: "accounting_inv (SOVRENInferenceEngine cuda n)"
  by (simp add: accounting_inv_def SOVRENInferenceEngine_def)

lemma heap_inv_allocate:
  assumes "heap_inv s" "cuda \<or> malloc_answer_ok r s"
  shows "heap_inv (snd (allocate_gpu_memory cuda sz d r s))"
  using assms
  by (auto simp: heap_inv_def outstanding_def allocate_gpu_memory_def c_malloc_def
      malloc_answer_ok_def dom_update distinct_update)

lemma heap_inv_free:
  assumes "heap_inv s"
  shows "heap_inv (free_gpu_memory cuda p s)"
proof (cases "p = nullptr \<or> cuda \<or> map_of (memory_map s) p = None")
  case True
  then show ?thesis using assms by (auto simp: free_gpu_memory_def)
next
  case False
  then obtain sz where sz: "map_of (memory_map s) p = Some sz" by auto
  then have "p \<in> set (outstanding s)"
    by (auto simp: outstanding_def dest: map_of_SomeD intro: rev_image_eqI)
  with assms False sz show ?thesis
    by (auto simp: heap_inv_def outstanding_def free_gpu_memory_def c_free_def delete_keys
        distinct_removeAll)
qed

lemma heap_inv_cleanup:
  assumes "heap_inv s"
  shows "heap_inv (cleanup cuda s)"
  using assms
  by (simp add: heap_inv_def outstanding_def cleanup_def free_all_fields free_all_fault)

lemma heap_inv_step: "heap_inv s \<Longrightarrow> call_ok cuda c s \<Longrightarrow> heap_inv (step cuda c s)"
  by (cases c) (simp_all add: heap_inv_allocate heap_inv_free heap_inv_cleanup)

lemma heap_inv_run: "heap_inv s \<Longrightarrow> env_ok cuda cs s \<Longrightarrow> heap_inv (run cuda cs s)"
  by (induction cs arbitrary: s) (simp_all add: heap_inv_step)

lemma accounting_inv_allocate:
  assumes "accounting_inv s" "heap_inv s" "malloc_answer_ok r s"
  shows "accounting_inv (snd (allocate_gpu_memory False sz d r s))"
proof (cases "r = nullptr")
  case True
  with assms show ?thesis
    by (simp add: accounting_inv_def allocate_gpu_memory_def c_malloc_def)
next
  case False
  with assms have "r \<notin> fst ` set (memory_map s)"
    by (auto simp: heap_inv_def outstanding_def malloc_answer_ok_def)
  with assms False show ?thesis
    by (simp add: accounting_inv_def allocate_gpu_memory_def c_malloc_def sum_list_update_fresh)
qed

lemma accounting_inv_free:
  assumes "accounting_inv s" "heap_inv s"
  shows "accounting_inv (free_gpu_memory False p s)"
  using assms
  by (auto simp: accounting_inv_def heap_inv_def outstanding_def free_gpu_memory_def c_free_def
      sum_list_delete split: option.splits)

lemma accounting_inv_cleanup: "accounting_inv (cleanup cuda s)"
  by (simp add: accounting_inv_def cleanup_def)

lemma accounting_inv_step:
  "accounting_inv s \<Longrightarrow> heap_inv s \<Longrightarrow> call_ok False c s \<Longrightarrow> accounting_inv (step False c s)"
  by (cases c) (simp_all add: accounting_inv_allocate accounting_inv_free accounting_inv_cleanup)

lemma accounting_inv_run:
  "accounting_inv s \<Longrightarrow> heap_inv s \<Longrightarrow> env_ok False cs s \<Longrightarrow> accounting_inv (run False cs s)"
  by (induction cs arbitrary: s) (simp_all add: accounting_inv_step heap_inv_step)

lemma distinct_outstanding_step:
  "distinct (outstanding s) \<Longrightarrow> distinct (outstanding (step cuda c s))"
  by (cases c)
     (auto simp: outstanding_def allocate_gpu_memory_def c_malloc_def free_gpu_memory_def
        c_free_def cleanup_def distinct_update delete_keys distinct_removeAll
        split: option.splits)

lemma distinct_outstanding_run:
  "distinct (outstanding s) \<Longrightarrow> distinct (outstanding (run cuda cs s))"
  by (induction cs arbitrary: s) (simp_all add: distinct_outstanding_step)

lemma unat_sum_list:
  "unat (sum_list (ws :: size_t list)) = sum_list (map unat ws) mod 2 ^ 64"
  by (induction ws) (simp_all add: unat_word_ariths mod_add_right_eq)

lemma cleanup_fields:
  "memory_map (cleanup cuda s) = []"
  "total_memory_allocated (cleanup cuda s) = 0"
  "free_trace (cleanup cuda s) = free_trace s @ outstanding s"
  "heap_live (cleanup cuda s) = heap_live s - set (outstanding s)"
  by (simp_all add: cleanup_def outstanding_def free_all_fields)

lemma cleanup_twice: "cleanup cuda (cleanup cuda s) = cleanup cuda s"
  by (simp add: cleanup_def free_all_fields)

lemma allocate_null: "allocate_gpu_memory False sz d nullptr s = (nullptr, s)"
  by (simp add: allocate_gpu_memory_def c_malloc_def)

lemma allocate_fst: "fst (allocate_gpu_memory False sz d r s) = r"
  by (simp add: allocate_gpu_memory_def c_malloc_def)

lemma allocate_nonnull:
  "r \<noteq> nullptr \<Longrightarrow>
     total_memory_allocated (snd (allocate_gpu_memory False sz d r s)) = total_memory_allocated s + sz
     \<and> memory_map (snd (allocate_gpu_memory False sz d r s)) = AList.update r sz (memory_map s)
     \<and> map_of (memory_map (snd (allocate_gpu_memory False sz d r s))) r = Some sz"
  by (simp add: allocate_gpu_memory_def c_malloc_def update_conv')

lemma free_not_outstanding:
  "p = nullptr \<or> map_of (memory_map s) p = None \<Longrightarrow> free_gpu_memory cuda p s = s"
  by (auto simp: free_gpu_memory_def)

lemma free_outstanding:
  "p \<noteq> nullptr \<Longrightarrow> map_of (memory_map s) p = Some sz \<Longrightarrow>
     total_memory_allocated (free_gpu_memory False p s) = total_memory_allocated s - sz
     \<and> memory_map (free_gpu_memory False p s) = AList.delete p (memory_map s)
     \<and> free_trace (free_gpu_memory False p s) = free_trace s @ [p]"
  by (simp add: free_gpu_memory_def c_free_def)

lemma free_erases: "map_of (memory_map (free_gpu_memory False p s)) p = None \<or> p = nullptr"
  by (auto simp: free_gpu_memory_def c_free_def delete_conv' split: option.splits)

lemma step_keeps_config:
  "config (step cuda c s) = config s \<and> tensor_parallel_size (step cuda c s) = tensor_parallel_size s"
  by (cases c)
     (auto simp: allocate_gpu_memory_def c_malloc_def free_gpu_memory_def c_free_def cleanup_def
        free_all_fields split: option.splits)

lemma run_keeps_config:
  "config (run cuda cs s) = config s \<and> tensor_parallel_size (run cuda cs s) = tensor_parallel_size s"
  by (induction cs arbitrary: s) (simp_all add: step_keeps_config)

lemma resize_length: "length (resize n x v) = n"
  by (simp add: resize_def)

lemma forward_pass_default:
  "forward_pass input_tokens output_logits 1 (SOVRENInferenceEngine cuda n)
     = Inr (True, resize 152064 0 output_logits, SOVRENInferenceEngine cuda n)"
  by (simp add: forward_pass_def SOVRENInferenceEngine_def default_ModelConfig_def)

lemma take2_resize_empty: "take 2 (resize 152064 (0 :: float32) []) = [0, 0]"
  by (simp add: resize_def numeral_2_eq_2)

lemma take2_resize_stale:
  "take 2 (resize 152064 (0 :: float32) [0x3FC00000, 0xC0000000]) = [0x3FC00000, 0xC0000000]"
  by (simp add: resize_def)

lemma allocate_cuda:
  "allocate_gpu_memory True sz d r s
     = (nullptr, s\<lparr>total_memory_allocated := total_memory_allocated s + sz\<rparr>)"
  by (simp add: allocate_gpu_memory_def)

text \<open>The hypothesis on \<^verbatim>\<open>malloc\<close> is needed: were it to hand out a block that is
  still live, the second assignment \<^verbatim>\<open>memory_map_[ptr] = size\<close> would overwrite the
  entry while the counter keeps both sizes.\<close>

lemma accounting_needs_sane_malloc:
  "\<not> well_behaved False 1 [Allocate 16 0 4096, Allocate 32 0 4096]
   \<and> \<not> accounting_inv (after_calls False 1 [Allocate 16 0 4096, Allocate 32 0 4096])"
  by (simp add: accounting_inv_def eval_defs)

text \<open>On the CUDA path an allocation is counted but never recorded, and the three
  collectives succeed on every path.\<close>

lemma collectives_return_true:
  "synchronize_gpus cuda s = (True, s)"
  "all_reduce_gradients cuda s = (True, s)"
  "broadcast_weights cuda s = (True, s)"
  by (simp_all add: synchronize_gpus_def all_reduce_gradients_def broadcast_weights_def)

section \<open>The device memory allocator\<close>

text \<open>
  Claim C1. After \<^verbatim>\<open>cleanup\<close> (which the destructor calls), following any sequence of
  \<^verbatim>\<open>allocate_gpu_memory\<close>, \<^verbatim>\<open>free_gpu_memory\<close> and \<^verbatim>\<open>cleanup\<close> calls on a new engine,
  \<^verbatim>\<open>memory_map_\<close> is empty and the counter reported by \<^verbatim>\<open>get_memory_usage\<close> is zero.
  The calls of \<^verbatim>\<open>free\<close> that \<^verbatim>\<open>cleanup\<close> makes are exactly the outstanding pointers,
  each once; a second \<^verbatim>\<open>cleanup\<close> frees nothing more. When \<^verbatim>\<open>malloc\<close> behaves, no block
  stays live and no block was ever freed twice. This holds in both builds.
\<close>

theorem cleanup_releases_everything:
  "memory_map (cleanup cuda (after_calls cuda n cs)) = []
   \<and> total_memory_allocated (cleanup cuda (after_calls cuda n cs)) = 0
   \<and> get_memory_usage (cleanup cuda (after_calls cuda n cs)) = 0
   \<and> free_trace (cleanup cuda (after_calls cuda n cs))
       = free_trace (after_calls cuda n cs) @ outstanding (after_calls cuda n cs)
   \<and> distinct (outstanding (after_calls cuda n cs))
   \<and> cleanup cuda (cleanup cuda (after_calls cuda n cs)) = cleanup cuda (after_calls cuda n cs)
   \<and> (well_behaved cuda n cs
        \<longrightarrow> heap_live (cleanup cuda (after_calls cuda n cs)) = {}
          \<and> \<not> heap_fault (cleanup cuda (after_calls cuda n cs)))"
proof -
  define s where "s = after_calls cuda n cs"
  have d: "distinct (outstanding s)"
    unfolding s_def after_calls_def
    by (rule distinct_outstanding_run) (simp add: outstanding_def SOVRENInferenceEngine_def)
  have h: "heap_live (cleanup cuda s) = {} \<and> \<not> heap_fault (cleanup cuda s)"
    if "well_behaved cuda n cs"
  proof -
    from that have "heap_inv s"
      unfolding s_def after_calls_def well_behaved_def by (intro heap_inv_run heap_inv_init)
    then have "heap_inv (cleanup cuda s)"
      by (rule heap_inv_cleanup)
    then show ?thesis
      by (simp add: heap_inv_def outstanding_def cleanup_fields)
  qed
  from d h show ?thesis
    unfolding s_def [symmetric]
    by (simp add: cleanup_fields cleanup_twice get_memory_usage_def)
qed

theorem cleanup_releases_everything_witness:
  "well_behaved False 1 [Allocate 16 0 4096, Allocate 32 0 8192, Free 4096, Allocate 8 0 0, Free 4096]
   \<and> outstanding (after_calls False 1
        [Allocate 16 0 4096, Allocate 32 0 8192, Free 4096, Allocate 8 0 0, Free 4096]) = [8192]
   \<and> free_trace (cleanup False (after_calls False 1
        [Allocate 16 0 4096, Allocate 32 0 8192, Free 4096, Allocate 8 0 0, Free 4096])) = [4096, 8192]
   \<and> memory_map (cleanup False (after_calls False 1
        [Allocate 16 0 4096, Allocate 32 0 8192, Free 4096, Allocate 8 0 0, Free 4096])) = []
   \<and> get_memory_usage (cleanup False (after_calls False 1
        [Allocate 16 0 4096, Allocate 32 0 8192, Free 4096, Allocate 8 0 0, Free 4096])) = 0
   \<and> heap_live (cleanup False (after_calls False 1
        [Allocate 16 0 4096, Allocate 32 0 8192, Free 4096, Allocate 8 0 0, Free 4096])) = {}
   \<and> \<not> heap_fault (cleanup False (after_calls False 1
        [Allocate 16 0 4096, Allocate 32 0 8192, Free 4096, Allocate 8 0 0, Free 4096]))"
proof -
  have wb: "well_behaved False 1
      [Allocate 16 0 4096, Allocate 32 0 8192, Free 4096, Allocate 8 0 0, Free 4096]"
    by (simp add: eval_defs)
  have out: "outstanding (after_calls False 1
      [Allocate 16 0 4096, Allocate 32 0 8192, Free 4096, Allocate 8 0 0, Free 4096]) = [8192]"
    by (simp add: eval_defs)
  have tr: "free_trace (after_calls False 1
      [Allocate 16 0 4096, Allocate 32 0 8192, Free 4096, Allocate 8 0 0, Free 4096]) = [4096]"
    by (simp add: eval_defs)
  from wb out tr
    cleanup_releases_everything [of False 1
      "[Allocate 16 0 4096, Allocate 32 0 8192, Free 4096, Allocate 8 0 0, Free 4096]"]
  show ?thesis by simp
qed

text \<open>
  Claim C10. On the CPU path, with a \<^verbatim>\<open>malloc\<close> that behaves, the counter
  \<^verbatim>\<open>total_memory_allocated_\<close> equals the sum of the sizes recorded in \<^verbatim>\<open>memory_map_\<close>
  after every sequence of \<^verbatim>\<open>allocate_gpu_memory\<close>, \<^verbatim>\<open>free_gpu_memory\<close> and \<^verbatim>\<open>cleanup\<close>
  calls (in \<^verbatim>\<open>size_t\<close> arithmetic, and as natural numbers whenever the sizes add up
  to less than \<open>2^64\<close>), and after \<^verbatim>\<open>cleanup\<close> from any state. A failed allocation
  (null pointer) changes nothing; freeing a null or unknown pointer changes nothing;
  a successful allocation adds its size to the counter and records it; a successful
  free subtracts the recorded size and erases the entry.
\<close>

theorem accounting_invariant:
  "(well_behaved False n cs \<longrightarrow>
      accounting_inv (after_calls False n cs)
      \<and> (sum_list (map (unat \<circ> snd) (memory_map (after_calls False n cs))) < 2 ^ 64 \<longrightarrow>
           unat (total_memory_allocated (after_calls False n cs))
             = sum_list (map (unat \<circ> snd) (memory_map (after_calls False n cs)))))
   \<and> accounting_inv (cleanup False s)
   \<and> allocate_gpu_memory False sz d nullptr s = (nullptr, s)
   \<and> free_gpu_memory False nullptr s = s
   \<and> (map_of (memory_map s) p = None \<longrightarrow> free_gpu_memory False p s = s)
   \<and> (r \<noteq> nullptr \<longrightarrow>
        total_memory_allocated (snd (allocate_gpu_memory False sz d r s))
          = total_memory_allocated s + sz
        \<and> memory_map (snd (allocate_gpu_memory False sz d r s))
          = AList.update r sz (memory_map s))
   \<and> (p \<noteq> nullptr \<and> map_of (memory_map s) p = Some sz' \<longrightarrow>
        total_memory_allocated (free_gpu_memory False p s) = total_memory_allocated s - sz'
        \<and> memory_map (free_gpu_memory False p s) = AList.delete p (memory_map s))"
proof -
  have run: "accounting_inv (after_calls False n cs)" if "well_behaved False n cs"
    using that unfolding after_calls_def well_behaved_def
    by (intro accounting_inv_run accounting_inv_init heap_inv_init)
  have nat_sum: "unat (total_memory_allocated (after_calls False n cs))
       = sum_list (map (unat \<circ> snd) (memory_map (after_calls False n cs)))"
    if "well_behaved False n cs"
      and "sum_list (map (unat \<circ> snd) (memory_map (after_calls False n cs))) < 2 ^ 64"
  proof -
    from run [OF that(1)]
    have "unat (total_memory_allocated (after_calls False n cs))
        = sum_list (map unat (map snd (memory_map (after_calls False n cs)))) mod 2 ^ 64"
      by (simp only: accounting_inv_def unat_sum_list)
    with that(2) show ?thesis by simp
  qed
  from run nat_sum show ?thesis
    by (simp add: accounting_inv_cleanup allocate_null free_not_outstanding allocate_nonnull
        free_outstanding)
qed

theorem accounting_invariant_witness:
  "well_behaved False 1 [Allocate 16 0 4096, Allocate 32 0 8192, Free 4096, Free 12288]
   \<and> accounting_inv
        (after_calls False 1 [Allocate 16 0 4096, Allocate 32 0 8192, Free 4096, Free 12288])
   \<and> unat (total_memory_allocated
        (after_calls False 1 [Allocate 16 0 4096, Allocate 32 0 8192, Free 4096, Free 12288]))
       = 32
   \<and> map_of (memory_map (after_calls False 1 [Allocate 16 0 4096])) 12288 = None
   \<and> free_gpu_memory False 12288 (after_calls False 1 [Allocate 16 0 4096])
       = after_calls False 1 [Allocate 16 0 4096]
   \<and> total_memory_allocated
        (snd (allocate_gpu_memory False 32 0 8192 (after_calls False 1 [Allocate 16 0 4096])))
       = 48
   \<and> map_of (memory_map (after_calls False 1 [Allocate 16 0 4096])) 4096 = Some 16
   \<and> total_memory_allocated
        (free_gpu_memory False 4096 (after_calls False 1 [Allocate 16 0 4096])) = 0"
proof -
  have wb: "well_behaved False 1 [Allocate 16 0 4096, Allocate 32 0 8192, Free 4096, Free 12288]"
    by (simp add: eval_defs)
  have mm: "memory_map
      (after_calls False 1 [Allocate 16 0 4096, Allocate 32 0 8192, Free 4096, Free 12288])
      = [(8192, 32)]"
    by (simp add: eval_defs)
  have s1: "memory_map (after_calls False 1 [Allocate 16 0 4096]) = [(4096, 16)]"
    "total_memory_allocated (after_calls False 1 [Allocate 16 0 4096]) = 16"
    by (simp_all add: eval_defs)
  have nn: "(8192 :: ptr) \<noteq> nullptr" "(4096 :: ptr) \<noteq> nullptr"
    by (simp_all add: nullptr_def)
  from wb mm s1 nn
    accounting_invariant [of 1
      "[Allocate 16 0 4096, Allocate 32 0 8192, Free 4096, Free 12288]"
      "after_calls False 1 [Allocate 16 0 4096]" 32 0 12288 8192 16]
    accounting_invariant [of 1 "[]" "after_calls False 1 [Allocate 16 0 4096]" 32 0 4096 8192 16]
  show ?thesis by simp
qed

text \<open>
  Claim C2, as stated, fails: after an allocation at address 4096 and a first
  \<^verbatim>\<open>free_gpu_memory\<close>, the pointer is no longer outstanding, and the second
  \<^verbatim>\<open>free_gpu_memory\<close> on it returns normally with the state unchanged. It does not
  fail with \<open>InvalidHandle\<close>.
\<close>

theorem double_free_returns_normally:
  "map_of (memory_map (free_gpu_memory False 4096
       (snd (allocate_gpu_memory False 16 0 4096 (SOVRENInferenceEngine False 1))))) 4096 = None
   \<and> free_gpu_memory_outcome False 4096
        (free_gpu_memory False 4096
          (snd (allocate_gpu_memory False 16 0 4096 (SOVRENInferenceEngine False 1))))
      = Inr (free_gpu_memory False 4096
          (snd (allocate_gpu_memory False 16 0 4096 (SOVRENInferenceEngine False 1))))
   \<and> free_gpu_memory_outcome False 4096
        (free_gpu_memory False 4096
          (snd (allocate_gpu_memory False 16 0 4096 (SOVRENInferenceEngine False 1))))
      \<noteq> Inl InvalidHandle"
  by (simp add: free_gpu_memory_outcome_def eval_defs)

text \<open>
  Claim C2, amended. For every pointer that is null or not outstanding,
  \<^verbatim>\<open>free_gpu_memory\<close> (CPU path) returns normally and leaves the whole state as it
  was: no bookkeeping changes and no call of \<^verbatim>\<open>free\<close>. After a call on a non-null
  pointer that pointer has no entry, so a second free of the same allocation is such a
  silent no-op. No error is reported.
\<close>

theorem free_not_outstanding_is_noop:
  "(p = nullptr \<or> map_of (memory_map s) p = None \<longrightarrow>
      free_gpu_memory_outcome False p s = Inr s)
   \<and> (p \<noteq> nullptr \<longrightarrow> map_of (memory_map (free_gpu_memory False p s)) p = None)
   \<and> free_gpu_memory_outcome False p (free_gpu_memory False p s)
       = Inr (free_gpu_memory False p s)"
proof -
  have a: "free_gpu_memory False p s = s" if "p = nullptr \<or> map_of (memory_map s) p = None"
    using that by (rule free_not_outstanding)
  have b: "map_of (memory_map (free_gpu_memory False p s)) p = None" if "p \<noteq> nullptr"
    using that free_erases [of p s] by simp
  have c: "free_gpu_memory False p (free_gpu_memory False p s) = free_gpu_memory False p s"
  proof (cases "p = nullptr")
    case True
    then show ?thesis by (simp add: free_not_outstanding)
  next
    case False
    then show ?thesis by (intro free_not_outstanding disjI2 b)
  qed
  from a b c show ?thesis
    by (simp add: free_gpu_memory_outcome_def)
qed

theorem free_not_outstanding_is_noop_witness:
  "map_of (memory_map (after_calls False 1 [Allocate 16 0 4096, Free 4096])) 4096 = None
   \<and> (4096 :: ptr) \<noteq> nullptr
   \<and> free_gpu_memory_outcome False 4096 (after_calls False 1 [Allocate 16 0 4096, Free 4096])
       = Inr (after_calls False 1 [Allocate 16 0 4096, Free 4096])
   \<and> map_of (memory_map (free_gpu_memory False 4096 (after_calls False 1 [Allocate 16 0 4096])))
        4096 = None"
proof -
  have h: "map_of (memory_map (after_calls False 1 [Allocate 16 0 4096, Free 4096])) 4096 = None"
    by (simp add: eval_defs)
  have nn: "(4096 :: ptr) \<noteq> nullptr"
    by (simp add: nullptr_def)
  from h nn
    free_not_outstanding_is_noop [of 4096 "after_calls False 1 [Allocate 16 0 4096, Free 4096]"]
    free_not_outstanding_is_noop [of 4096 "after_calls False 1 [Allocate 16 0 4096]"]
  show ?thesis by simp
qed

text \<open>
  Claim C3, as stated, fails: on a new engine, with a ceiling of 1024 bytes, a request
  of 2048 bytes exceeds the ceiling; when \<^verbatim>\<open>malloc\<close> answers with the block at 4096,
  \<^verbatim>\<open>allocate_gpu_memory\<close> returns that block and records it. The method consults no
  ceiling.
\<close>

theorem allocate_beyond_ceiling_succeeds:
  "exceeds_ceiling 1024 (SOVRENInferenceEngine False 1) 2048
   \<and> fst (allocate_gpu_memory False 2048 0 4096 (SOVRENInferenceEngine False 1)) = 4096
   \<and> fst (allocate_gpu_memory False 2048 0 4096 (SOVRENInferenceEngine False 1)) \<noteq> nullptr
   \<and> memory_map (snd (allocate_gpu_memory False 2048 0 4096 (SOVRENInferenceEngine False 1)))
       = [(4096, 2048)]
   \<and> get_memory_usage (snd (allocate_gpu_memory False 2048 0 4096 (SOVRENInferenceEngine False 1)))
       = 2048"
  by (simp add: exceeds_ceiling_def eval_defs)

text \<open>
  Claim C3, amended. For every size and device id, \<^verbatim>\<open>allocate_gpu_memory\<close> (CPU path)
  returns what \<^verbatim>\<open>malloc\<close> returned, whatever the cumulative allocated bytes. When that
  is the null pointer, nothing is recorded and the state is unchanged; otherwise the
  block is recorded with its size and the counter grows by the size.
\<close>

theorem allocate_fails_only_when_malloc_fails:
  "fst (allocate_gpu_memory False sz d r s) = r
   \<and> (r = nullptr \<longrightarrow> snd (allocate_gpu_memory False sz d r s) = s)
   \<and> (r \<noteq> nullptr \<longrightarrow>
        map_of (memory_map (snd (allocate_gpu_memory False sz d r s))) r = Some sz
        \<and> total_memory_allocated (snd (allocate_gpu_memory False sz d r s))
            = total_memory_allocated s + sz)"
  using allocate_null [of sz d s] allocate_nonnull [of r sz d s]
  by (auto simp: allocate_fst)

theorem allocate_fails_only_when_malloc_fails_witness:
  "(0 :: ptr) = nullptr
   \<and> allocate_gpu_memory False 2048 0 0 (SOVRENInferenceEngine False 1)
       = (nullptr, SOVRENInferenceEngine False 1)
   \<and> (4096 :: ptr) \<noteq> nullptr
   \<and> map_of (memory_map (snd (allocate_gpu_memory False 2048 0 4096
        (SOVRENInferenceEngine False 1)))) 4096 = Some 2048
   \<and> total_memory_allocated (snd (allocate_gpu_memory False 2048 0 4096
        (SOVRENInferenceEngine False 1))) = 2048"
proof -
  have z: "(0 :: ptr) = nullptr" and nn: "(4096 :: ptr) \<noteq> nullptr"
    by (simp_all add: nullptr_def)
  have t: "total_memory_allocated (SOVRENInferenceEngine False 1) = 0"
    by (simp add: SOVRENInferenceEngine_def)
  from z nn t
    allocate_fails_only_when_malloc_fails [of 2048 0 0 "SOVRENInferenceEngine False 1"]
    allocate_fails_only_when_malloc_fails [of 2048 0 4096 "SOVRENInferenceEngine False 1"]
  show ?thesis by (simp add: prod_eq_iff)
qed

section \<open>Generation\<close>

text \<open>
  Claim C4, evaluated on the code: for the prompt \<open>[1, 2, 3]\<close>, \<open>max_new_tokens = 5\<close>,
  temperature \<open>0.0f\<close> and top-p \<open>1.0f\<close> (\<^verbatim>\<open>0x3F800000\<close>) on a new engine,
  \<^verbatim>\<open>generate_tokens\<close> returns the prompt as the output stream: no token beyond the
  prompt, where the claim asks for five. The allocator's counter is unchanged by the
  call.
\<close>

theorem generate_tokens_scenario:
  "generate_tokens [1, 2, 3] [] 5 0 0x3F800000 (SOVRENInferenceEngine False 1)
     = (True, [1, 2, 3], SOVRENInferenceEngine False 1)
   \<and> new_tokens [1, 2, 3]
        (fst (snd (generate_tokens [1, 2, 3] [] 5 0 0x3F800000 (SOVRENInferenceEngine False 1))))
      = []
   \<and> get_memory_usage
        (snd (snd (generate_tokens [1, 2, 3] [] 5 0 0x3F800000 (SOVRENInferenceEngine False 1))))
      = get_memory_usage (SOVRENInferenceEngine False 1)"
  by (simp add: generate_tokens_def new_tokens_def)

text \<open>
  Claim C5. For every prompt, \<^verbatim>\<open>generate_tokens\<close> with \<open>max_new_tokens = 0\<close> returns
  \<^verbatim>\<open>true\<close> at once, with the prompt as the output stream: the stream holds no token
  beyond the prompt, and the engine is unchanged.
\<close>

theorem max_new_tokens_zero:
  "generate_tokens input_tokens output_tokens 0 temperature top_p s = (True, input_tokens, s)
   \<and> new_tokens input_tokens
        (fst (snd (generate_tokens input_tokens output_tokens 0 temperature top_p s))) = []"
  by (simp add: generate_tokens_def new_tokens_def)

text \<open>
  Claim C6, evaluated on the code: with temperature \<open>0.0f\<close> and room for one new
  token, \<^verbatim>\<open>generate_tokens\<close> yields no token at all, so not the arg-max token; the
  method never computes logits and never reads the temperature.
\<close>

theorem temperature_zero_yields_no_token:
  "fst (snd (generate_tokens [7] [] 1 0 0x3F666666 (SOVRENInferenceEngine False 1))) = [7]
   \<and> new_tokens [7]
        (fst (snd (generate_tokens [7] [] 1 0 0x3F666666 (SOVRENInferenceEngine False 1)))) = []"
  by (simp add: generate_tokens_def new_tokens_def)

section \<open>The forward pass\<close>

text \<open>
  Claim C7, evaluated on the code: two runs of \<^verbatim>\<open>forward_pass\<close> on the same new engine,
  the same input tokens \<open>[1, 2, 3]\<close> and the same batch size 1 return different logits
  when the caller's \<^verbatim>\<open>output_logits\<close> vector is empty in one run and holds
  \<^verbatim>\<open>{1.5f, -2.0f}\<close> (\<^verbatim>\<open>0x3FC00000\<close>, \<^verbatim>\<open>0xC0000000\<close>) in the other. Both results have
  152064 entries; the first starts with two zeros, the second with the two stale values,
  because \<^verbatim>\<open>resize(n, 0.0f)\<close> keeps the elements the vector already has. The body is
  marked \<^verbatim>\<open>TODO: Implement forward pass\<close>: it never writes the logits it sizes.
\<close>

theorem forward_pass_keeps_stale_logits:
  "map_option (take 2)
       (logits_of (forward_pass [1, 2, 3] [] 1 (SOVRENInferenceEngine False 1)))
     = Some [0, 0]
   \<and> map_option (take 2)
       (logits_of (forward_pass [1, 2, 3] [0x3FC00000, 0xC0000000] 1
          (SOVRENInferenceEngine False 1)))
     = Some [0x3FC00000, 0xC0000000]
   \<and> map_option length
       (logits_of (forward_pass [1, 2, 3] [] 1 (SOVRENInferenceEngine False 1)))
     = Some 152064
   \<and> map_option length
       (logits_of (forward_pass [1, 2, 3] [0x3FC00000, 0xC0000000] 1
          (SOVRENInferenceEngine False 1)))
     = Some 152064
   \<and> logits_of (forward_pass [1, 2, 3] [] 1 (SOVRENInferenceEngine False 1))
     \<noteq> logits_of (forward_pass [1, 2, 3] [0x3FC00000, 0xC0000000] 1
          (SOVRENInferenceEngine False 1))"
proof -
  have ne: "resize 152064 (0 :: float32) [] \<noteq> resize 152064 0 [0x3FC00000, 0xC0000000]"
  proof
    assume "resize 152064 (0 :: float32) [] = resize 152064 0 [0x3FC00000, 0xC0000000]"
    then have "take 2 (resize 152064 (0 :: float32) [])
        = take 2 (resize 152064 0 [0x3FC00000, 0xC0000000])"
      by (rule arg_cong)
    then show False
      by (simp only: take2_resize_empty take2_resize_stale) simp
  qed
  from ne show ?thesis
    by (simp only: forward_pass_default logits_of_def sum.case prod.case option.map
        take2_resize_empty take2_resize_stale resize_length option.inject simp_thms)
qed

section \<open>The model configuration\<close>

text \<open>
  Claim C8. The configuration of the engine, after construction and any sequence of
  allocator calls, satisfies the invariant: \<open>hidden_size\<close> is divisible by
  \<open>num_attention_heads\<close>, which is a multiple of \<open>num_key_value_heads\<close> and of the
  tensor-parallel size. It is the default one: hidden size 8192, 64 attention heads,
  8 key/value heads, tensor-parallel size 1, so \<open>head_dim = 128\<close>.
\<close>

theorem default_config_invariant:
  "config_invariant (get_config (after_calls cuda n cs))
       (tensor_parallel_size (after_calls cuda n cs))
   \<and> hidden_size (get_config (after_calls cuda n cs)) = 8192
   \<and> num_attention_heads (get_config (after_calls cuda n cs)) = 64
   \<and> num_key_value_heads (get_config (after_calls cuda n cs)) = 8
   \<and> tensor_parallel_size (after_calls cuda n cs) = 1
   \<and> head_dim (get_config (after_calls cuda n cs)) = 128"
proof -
  have "config (after_calls cuda n cs) = default_ModelConfig"
    and "tensor_parallel_size (after_calls cuda n cs) = 1"
    by (simp_all add: after_calls_def run_keeps_config SOVRENInferenceEngine_def)
  then show ?thesis
    by (simp add: get_config_def config_invariant_def head_dim_def default_ModelConfig_def)
qed

end
